theory Spec2Isabelle
  imports Main "HOL-Library.Sublist" "HOL-Library.AList"
begin

section \<open>Python strings\<close>

text \<open>
  A Python \<open>str\<close> is modelled as a HOL \<open>string\<close>: a list of characters whose
  code points lie below 256. The built-in string methods the routers call are
  written out as recursive functions.
\<close>

definition startswith :: "string \<Rightarrow> string \<Rightarrow> bool" where
  \<comment> \<open>\<open>s.startswith(p)\<close>\<close>
  "startswith s p = prefix p s"

fun contains :: "string \<Rightarrow> string \<Rightarrow> bool" where
  \<comment> \<open>\<open>needle in hay\<close>\<close>
  "contains needle [] = (needle = [])"
| "contains needle (c # cs) = (prefix needle (c # cs) \<or> contains needle cs)"

fun py_split :: "char \<Rightarrow> string \<Rightarrow> string list" where
  \<comment> \<open>\<open>s.split(sep)\<close> for a separator of one character\<close>
  "py_split sep [] = [[]]"
| "py_split sep (c # cs) =
     (if c = sep then [] # py_split sep cs
      else (case py_split sep cs of
              [] \<Rightarrow> [[c]]
            | w # ws \<Rightarrow> (c # w) # ws))"

fun py_join :: "string \<Rightarrow> string list \<Rightarrow> string" where
  \<comment> \<open>\<open>sep.join(xs)\<close>\<close>
  "py_join sep [] = []"
| "py_join sep [x] = x"
| "py_join sep (x # y # ys) = x @ sep @ py_join sep (y # ys)"

definition is_linebreak :: "char \<Rightarrow> bool" where
  \<comment> \<open>the line boundaries of \<open>str.splitlines\<close> below code point 256:
      LF, VT, FF, CR, FS, GS, RS and NEL\<close>
  "is_linebreak c =
     (c = CHR 0x0A \<or> c = CHR 0x0B \<or> c = CHR 0x0C \<or> c = CHR 0x0D \<or>
      c = CHR 0x1C \<or> c = CHR 0x1D \<or> c = CHR 0x1E \<or> c = CHR 0x85)"

fun splitlines_from :: "string \<Rightarrow> string \<Rightarrow> string list" where
  \<comment> \<open>\<open>cur\<close> is the line read so far; CR LF counts as one boundary\<close>
  "splitlines_from cur [] = (if cur = [] then [] else [cur])"
| "splitlines_from cur [c] =
     (if is_linebreak c then [cur] else [cur @ [c]])"
| "splitlines_from cur (c # d # cs) =
     (if c = CHR 0x0D \<and> d = CHR 0x0A then cur # splitlines_from [] cs
      else if is_linebreak c then cur # splitlines_from [] (d # cs)
      else splitlines_from (cur @ [c]) (d # cs))"

definition splitlines :: "string \<Rightarrow> string list" where
  \<comment> \<open>\<open>s.splitlines()\<close>\<close>
  "splitlines s = splitlines_from [] s"

definition isspace :: "char \<Rightarrow> bool" where
  \<comment> \<open>\<open>c.isspace()\<close> below code point 256\<close>
  "isspace c =
     (c = CHR 0x09 \<or> c = CHR 0x0A \<or> c = CHR 0x0B \<or> c = CHR 0x0C \<or> c = CHR 0x0D \<or>
      c = CHR 0x1C \<or> c = CHR 0x1D \<or> c = CHR 0x1E \<or> c = CHR 0x1F \<or>
      c = CHR 0x20 \<or> c = CHR 0x85 \<or> c = CHR 0xA0)"

fun split_ws_from :: "string \<Rightarrow> string \<Rightarrow> string list" where
  "split_ws_from cur [] = (if cur = [] then [] else [cur])"
| "split_ws_from cur (c # cs) =
     (if isspace c then (if cur = [] then split_ws_from [] cs else cur # split_ws_from [] cs)
      else split_ws_from (cur @ [c]) cs)"

definition split_ws :: "string \<Rightarrow> string list" where
  \<comment> \<open>\<open>s.split()\<close>: runs of whitespace separate the words\<close>
  "split_ws s = split_ws_from [] s"

fun str_nat :: "nat \<Rightarrow> string" where
  \<comment> \<open>\<open>str(n)\<close> for a non-negative integer\<close>
  "str_nat n =
     (if n < 10 then [''0123456789'' ! n]
      else str_nat (n div 10) @ [''0123456789'' ! (n mod 10)])"

fun replace_from :: "string \<Rightarrow> string \<Rightarrow> nat \<Rightarrow> string \<Rightarrow> string" where
  \<comment> \<open>\<open>skip\<close> characters of a match that was just replaced are still to be dropped\<close>
  "replace_from old new skip [] = []"
| "replace_from old new (Suc k) (c # cs) = replace_from old new k cs"
| "replace_from old new 0 (c # cs) =
     (if prefix old (c # cs) then new @ replace_from old new (length old - 1) cs
      else c # replace_from old new 0 cs)"

definition str_replace :: "string \<Rightarrow> string \<Rightarrow> string \<Rightarrow> string" where
  \<comment> \<open>\<open>s.replace(old, new)\<close>: every occurrence, left to right, without overlap\<close>
  "str_replace s old new =
     (if old = [] then new @ concat (map (\<lambda>c. c # new) s)
      else replace_from old new 0 s)"

definition lstrip :: "char \<Rightarrow> string \<Rightarrow> string" where
  \<comment> \<open>\<open>s.lstrip(c)\<close> for one character\<close>
  "lstrip c s = dropWhile (\<lambda>x. x = c) s"

definition rstrip :: "char \<Rightarrow> string \<Rightarrow> string" where
  \<comment> \<open>\<open>s.rstrip(c)\<close> for one character\<close>
  "rstrip c s = rev (dropWhile (\<lambda>x. x = c) (rev s))"

section \<open>Paths (posixpath)\<close>

text \<open>
  The routers run on a POSIX host (the scheduler refuses any other), so \<open>os.path\<close>
  is \<open>posixpath\<close>. Its functions are pure string functions; \<open>abspath\<close> reads the
  working directory, which is a parameter here. None of them reads the file system:
  symbolic links are not resolved.
\<close>

definition isabs :: "string \<Rightarrow> bool" where
  "isabs s = startswith s ''/''"

definition endswith :: "string \<Rightarrow> string \<Rightarrow> bool" where
  \<comment> \<open>\<open>s.endswith(p)\<close>\<close>
  "endswith s p = suffix p s"

definition join1 :: "string \<Rightarrow> string \<Rightarrow> string" where
  \<comment> \<open>one round of the loop of \<open>posixpath.join\<close>\<close>
  "join1 path b =
     (if startswith b ''/'' then b
      else if path = [] \<or> endswith path ''/'' then path @ b
      else path @ ''/'' @ b)"

definition os_path_join :: "string \<Rightarrow> string list \<Rightarrow> string" where
  \<comment> \<open>\<open>os.path.join(a, *p)\<close>\<close>
  "os_path_join a p = foldl join1 a p"

definition initial_slashes :: "string \<Rightarrow> nat" where
  "initial_slashes path =
     (if startswith path ''/''
      then (if startswith path ''//'' \<and> \<not> startswith path ''///'' then 2 else 1)
      else 0)"

fun norm_comps :: "nat \<Rightarrow> string list \<Rightarrow> string list \<Rightarrow> string list" where
  \<comment> \<open>the loop of \<open>posixpath.normpath\<close> over the components, \<open>new_comps\<close> so far\<close>
  "norm_comps i new_comps [] = new_comps"
| "norm_comps i new_comps (part # comps) =
     (if part = [] \<or> part = ''.'' then norm_comps i new_comps comps
      else if part \<noteq> ''..'' \<or> (i = 0 \<and> new_comps = [])
                \<or> (new_comps \<noteq> [] \<and> last new_comps = ''..'')
      then norm_comps i (new_comps @ [part]) comps
      else if new_comps \<noteq> [] then norm_comps i (butlast new_comps) comps
      else norm_comps i new_comps comps)"

definition normpath :: "string \<Rightarrow> string" where
  "normpath path =
     (if path = [] then ''.''
      else
        let i = initial_slashes path;
            comps = norm_comps i [] (py_split CHR ''/'' path);
            joined = py_join ''/'' comps;
            result = (if i \<noteq> 0 then replicate i CHR ''/'' @ joined else joined)
        in if result = [] then ''.'' else result)"

definition abspath :: "string \<Rightarrow> string \<Rightarrow> string" where
  \<comment> \<open>\<open>os.path.abspath(path)\<close> in the working directory \<open>cwd\<close>\<close>
  "abspath cwd path =
     normpath (if \<not> isabs path then os_path_join cwd [path] else path)"

fun rfind :: "char \<Rightarrow> string \<Rightarrow> nat option" where
  \<comment> \<open>the index of the last \<open>c\<close> in \<open>s\<close>; \<open>None\<close> is Python's \<open>-1\<close>\<close>
  "rfind c [] = None"
| "rfind c (x # xs) =
     (case rfind c xs of
        Some i \<Rightarrow> Some (Suc i)
      | None \<Rightarrow> if x = c then Some 0 else None)"

definition dirname :: "string \<Rightarrow> string" where
  "dirname p =
     (let i = (case rfind CHR ''/'' p of None \<Rightarrow> 0 | Some k \<Rightarrow> Suc k);
          head = take i p
      in if head \<noteq> [] \<and> head \<noteq> replicate (length head) CHR ''/''
         then rstrip CHR ''/'' head else head)"

definition basename :: "string \<Rightarrow> string" where
  "basename p = drop (case rfind CHR ''/'' p of None \<Rightarrow> 0 | Some k \<Rightarrow> Suc k) p"

definition splitext :: "string \<Rightarrow> string \<times> string" where
  \<comment> \<open>\<open>os.path.splitext\<close>: the extension starts at the last dot of the last component,
      unless only dots stand before it there\<close>
  "splitext p =
     (case rfind CHR ''.'' p of
        None \<Rightarrow> (p, [])
      | Some dotIndex \<Rightarrow>
          let filenameIndex = (case rfind CHR ''/'' p of None \<Rightarrow> 0 | Some k \<Rightarrow> Suc k)
          in if filenameIndex \<le> dotIndex
                \<and> (\<exists>c \<in> set (drop filenameIndex (take dotIndex p)). c \<noteq> CHR ''.'')
             then (take dotIndex p, drop dotIndex p)
             else (p, []))"

section \<open>The path check (routers_fixed/files.py)\<close>

definition is_safe_path :: "string \<Rightarrow> string \<Rightarrow> string \<Rightarrow> bool" where
  \<comment> \<open>lines 29 to 36, in the working directory \<open>cwd\<close>\<close>
  "is_safe_path cwd path user_dir =
     (let abs_path = abspath cwd path;
          abs_user_dir = abspath cwd user_dir
      in startswith abs_path abs_user_dir)"

definition path_segments :: "string \<Rightarrow> string list" where
  \<comment> \<open>the directory names of a path, for stating what lies inside what\<close>
  "path_segments p = filter (\<lambda>seg. seg \<noteq> []) (py_split CHR ''/'' p)"

section \<open>Exceptions\<close>

datatype py_exception =
    HTTPException (status_code: nat) (detail: string)
  | IndexError
  | ValueError
  | TimeoutError
  | OSError string
  | UnicodeDecodeError


section \<open>Users\<close>

datatype UserRole = ADMIN | USER

record User =
  username :: string
  role :: UserRole

section \<open>The host: files, processes, the schedule table\<close>

text \<open>
  The routers work on the state of the host. The model keeps what they read and
  write: the file system (absolute normalised path to node), the schedule table of
  the account the server runs as (\<open>None\<close>: no table installed), and the processes
  killed so far (by their argument vectors). What a spawned program does is given
  by the environment: \<open>spawn\<close> tells, for an argument vector and a working
  directory, whether the program starts, after how many seconds it exits, with
  which return code and which output; the effects of the program on the host are
  not modelled. Captured output is modelled after decoding. For the schedule table
  the environment tells whether \<open>crontab -l\<close> can be run and its output decoded
  (\<open>crontab_l_ok\<close>), whether \<open>crontab file\<close> can be run (\<open>crontab_runs\<close>), and which
  tables it accepts.

  Left out, since they change nothing that the model keeps: \<open>log_activity\<close>
  (services/logging.py catches its own exceptions and returns), the temporary
  files that \<open>run_script\<close>, \<open>schedule_script\<close> and \<open>unschedule_script\<close> create
  and unlink again, and the mode that \<open>os.chmod\<close> gives the wrapper script.
\<close>

datatype node = Dir | File string

record world =
  fs :: "string \<rightharpoonup> node"
  crontab :: "string option"
  killed :: "string list list"

datatype proc_behaviour =
    SpawnError py_exception
  | Runs nat int string string

record env =
  os_name :: string
  cwd :: string
  BASE_DIR :: string
  sys_executable :: string
  exc_str :: "py_exception \<Rightarrow> string"
  spawn :: "world \<Rightarrow> string list \<Rightarrow> string option \<Rightarrow> proc_behaviour"
  crontab_l_ok :: bool
  crontab_runs :: bool
  crontab_accepts :: "string \<Rightarrow> bool"
  crontab_stderr :: "string \<Rightarrow> string"

definition path_exists :: "env \<Rightarrow> world \<Rightarrow> string \<Rightarrow> bool" where
  \<comment> \<open>\<open>os.path.exists\<close>, by the normalised path: the model has no answer of its own
      for a path through a missing directory (\<open>missing/../job.py\<close>) or for a file
      name followed by a slash, which the kernel does not find\<close>
  "path_exists e w p = (fs w (abspath (cwd e) p) \<noteq> None)"

definition write_file :: "env \<Rightarrow> string \<Rightarrow> string \<Rightarrow> world \<Rightarrow> world" where
  \<comment> \<open>\<open>open(p, 'w')\<close>, \<open>write(content)\<close>, close\<close>
  "write_file e p content w = w\<lparr>fs := (fs w)(abspath (cwd e) p \<mapsto> File content)\<rparr>"

definition makedirs :: "env \<Rightarrow> string \<Rightarrow> world \<Rightarrow> py_exception + world" where
  \<comment> \<open>\<open>os.makedirs(p, exist_ok=True)\<close>; the model records the last directory only\<close>
  "makedirs e p w =
     (case fs w (abspath (cwd e) p) of
        None \<Rightarrow> Inr (w\<lparr>fs := (fs w)(abspath (cwd e) p \<mapsto> Dir)\<rparr>)
      | Some Dir \<Rightarrow> Inr w
      | Some (File _) \<Rightarrow> Inl (OSError ''File exists''))"

definition get_user_dir :: "env \<Rightarrow> string \<Rightarrow> world \<Rightarrow> py_exception + string \<times> world" where
  \<comment> \<open>files.py, lines 22 to 26\<close>
  "get_user_dir e uname w =
     (let user_dir = os_path_join (BASE_DIR e) [uname]
      in case makedirs e user_dir w of
           Inl ex \<Rightarrow> Inl ex
         | Inr w' \<Rightarrow> Inr (user_dir, w'))"

definition str_int :: "int \<Rightarrow> string" where
  "str_int i = (if i < 0 then ''-'' @ str_nat (nat (- i)) else str_nat (nat i))"

section \<open>Running a script (routers/python\_deployer.py, run\_script)\<close>

record run_response =
  r_message :: string
  r_returncode :: int
  r_stdout :: string
  r_stderr :: string
  r_script_path :: string

definition wait_for :: "nat \<Rightarrow> int \<Rightarrow> py_exception + unit" where
  \<comment> \<open>\<open>asyncio.wait_for(process.communicate(), timeout)\<close> for a process that exits
      after \<open>seconds\<close>: the timer wins unless the process exits before it fires; a
      timeout too large for a float, for which the call raises, is not modelled\<close>
  "wait_for seconds timeout = (if int seconds < timeout then Inr () else Inl TimeoutError)"

definition venv_python :: "env \<Rightarrow> world \<Rightarrow> string \<Rightarrow> string" where
  \<comment> \<open>lines 261 to 270\<close>
  "venv_python e w venv_path =
     (if path_exists e w venv_path
      then (if os_name e = ''nt'' then os_path_join venv_path [''Scripts'', ''python.exe'']
            else os_path_join venv_path [''bin'', ''python''])
      else sys_executable e)"

definition run_script_try ::
  "env \<Rightarrow> world \<Rightarrow> string \<Rightarrow> string \<Rightarrow> string list \<Rightarrow> string \<Rightarrow> int \<Rightarrow> string
     \<Rightarrow> (py_exception + run_response) \<times> world" where
  \<comment> \<open>the body of the \<open>try\<close>, lines 273 to 307\<close>
  "run_script_try e w python_path full_script_path args script_dir timeout spath =
     (let argv = python_path # full_script_path # args
      in case spawn e w argv (Some script_dir) of
           SpawnError ex \<Rightarrow> (Inl ex, w)
         | Runs seconds rc out err \<Rightarrow>
             (case wait_for seconds timeout of
                Inl ex \<Rightarrow>
                  (Inl (HTTPException 408
                          (''Script execution timed out after '' @ str_int timeout @ '' seconds'')),
                   w\<lparr>killed := killed w @ [argv]\<rparr>)
              | Inr _ \<Rightarrow>
                  (Inr \<lparr>r_message = (if rc = 0 then ''Script executed successfully''
                                   else ''Script execution failed''),
                        r_returncode = rc, r_stdout = out, r_stderr = err,
                        r_script_path = spath\<rparr>,
                   w)))"

definition run_script ::
  "env \<Rightarrow> string \<Rightarrow> User \<Rightarrow> string list \<Rightarrow> int \<Rightarrow> world
     \<Rightarrow> (py_exception + run_response) \<times> world" where
  "run_script e spath current_user args timeout w =
     (case get_user_dir e (username current_user) w of
        Inl ex \<Rightarrow> (Inl ex, w)
      | Inr (user_dir, w1) \<Rightarrow>
          let full_script_path = os_path_join user_dir [spath] in
          if \<not> is_safe_path (cwd e) full_script_path user_dir
          then (Inl (HTTPException 403 ''Access denied to this path''), w1)
          else if \<not> path_exists e w1 full_script_path
          then (Inl (HTTPException 404 ''Script not found''), w1)
          else
            let script_dir = dirname full_script_path;
                venv_path = os_path_join script_dir [''.venv''];
                python_path = venv_python e w1 venv_path
            in case run_script_try e w1 python_path full_script_path args script_dir
                      timeout spath of
                 (res, w2) \<Rightarrow>
                   (case res of
                      Inl ex \<Rightarrow>
                        \<comment> \<open>line 309: \<open>except Exception as e\<close> catches every exception raised
                            in the \<open>try\<close>, the \<open>HTTPException\<close> of line 289 among them\<close>
                        (Inl (HTTPException 500 (''Failed to run script: '' @ exc_str e ex)), w2)
                    | Inr r \<Rightarrow> (Inr r, w2)))"

section \<open>Installing requirements (install\_requirements)\<close>

record install_response =
  inst_message :: string
  inst_script_path :: string
  inst_requirements :: "string list"
  pip_output :: string

definition install_try ::
  "env \<Rightarrow> world \<Rightarrow> string \<Rightarrow> string \<Rightarrow> string list \<Rightarrow> string
     \<Rightarrow> py_exception + install_response" where
  \<comment> \<open>the body of the \<open>try\<close>, lines 194 to 221; \<open>communicate\<close> has no timeout\<close>
  "install_try e w pip_path req_file reqs spath =
     (case spawn e w [pip_path, ''install'', ''-r'', req_file] None of
        SpawnError ex \<Rightarrow> Inl ex
      | Runs seconds rc out err \<Rightarrow>
          if rc \<noteq> 0
          then Inl (HTTPException 500 (''Failed to install requirements: '' @ err))
          else Inr \<lparr>inst_message = ''Requirements installed successfully'',
                    inst_script_path = spath, inst_requirements = reqs, pip_output = out\<rparr>)"

definition install_requirements ::
  "env \<Rightarrow> string list \<Rightarrow> User \<Rightarrow> string \<Rightarrow> world
     \<Rightarrow> (py_exception + install_response) \<times> world" where
  "install_requirements e reqs current_user spath w =
     (case get_user_dir e (username current_user) w of
        Inl ex \<Rightarrow> (Inl ex, w)
      | Inr (user_dir, w1) \<Rightarrow>
          let full_script_path = os_path_join user_dir [spath] in
          if \<not> is_safe_path (cwd e) full_script_path user_dir
          then (Inl (HTTPException 403 ''Access denied to this path''), w1)
          else if \<not> path_exists e w1 full_script_path
          then (Inl (HTTPException 404 ''Script not found''), w1)
          else
            let script_dir = dirname full_script_path;
                venv_path = os_path_join script_dir [''.venv'']
            in if \<not> path_exists e w1 venv_path
               then (Inl (HTTPException 400
                       ''Virtual environment not found. Please create it first.''), w1)
               else
                 let req_file = os_path_join script_dir [''requirements.txt''];
                     w2 = write_file e req_file (py_join [CHR 0x0A] reqs) w1;
                     pip_path = (if os_name e = ''nt''
                                 then os_path_join venv_path [''Scripts'', ''pip.exe'']
                                 else os_path_join venv_path [''bin'', ''pip''])
                 in if \<not> path_exists e w2 pip_path
                    then (Inl (HTTPException 500
                            ''pip not found in the virtual environment''), w2)
                    else (case install_try e w2 pip_path req_file reqs spath of
                            Inl ex \<Rightarrow>
                              (Inl (HTTPException 500
                                 (''Failed to install requirements: '' @ exc_str e ex)), w2)
                          | Inr r \<Rightarrow> (Inr r, w2)))"

section \<open>The schedule table (schedule\_script, list\_scheduled\_scripts, unschedule\_script)\<close>

abbreviation nl :: string where
  "nl \<equiv> [CHR 0x0A]"

definition marker :: "string \<Rightarrow> string" where
  \<comment> \<open>\<open>f"# {name} - managed by control-panel"\<close>\<close>
  "marker name = ''# '' @ name @ '' - managed by control-panel''"

definition cron_entry :: "string \<Rightarrow> string \<Rightarrow> string \<Rightarrow> string" where
  \<comment> \<open>line 417\<close>
  "cron_entry cron_expression wrapper_path name =
     cron_expression @ '' '' @ wrapper_path @ '' # '' @ name @ '' - managed by control-panel'' @ nl"

definition upsert_crontab :: "string \<Rightarrow> string \<Rightarrow> string \<Rightarrow> string \<Rightarrow> string" where
  \<comment> \<open>lines 416 to 423\<close>
  "upsert_crontab current_crontab cron_expression wrapper_path name =
     (let crontab_lines = splitlines current_crontab;
          new_crontab_lines =
            filter (\<lambda>line. \<not> contains (marker name) line) crontab_lines
              @ [cron_entry cron_expression wrapper_path name]
      in py_join nl new_crontab_lines)"

definition crontab_l :: "env \<Rightarrow> world \<Rightarrow> py_exception + int \<times> string" where
  \<comment> \<open>\<open>crontab -l\<close>: the return code and the decoded output, or the exception that
      starting the program, waiting for it or decoding its output raises\<close>
  "crontab_l e w =
     (if \<not> crontab_l_ok e then Inl (OSError ''crontab -l'')
      else case crontab w of
             None \<Rightarrow> Inr (1, [])
           | Some table \<Rightarrow> Inr (0, table))"

definition crontab_install ::
  "env \<Rightarrow> string \<Rightarrow> world \<Rightarrow> py_exception + (int \<times> string) \<times> world" where
  \<comment> \<open>the new table is written to a temporary file, which \<open>crontab file\<close> installs as
      a whole or refuses; the temporary file is removed in the \<open>finally\<close>\<close>
  "crontab_install e new_crontab w =
     (if \<not> crontab_runs e then Inl (OSError ''crontab'')
      else if crontab_accepts e new_crontab
      then Inr ((0, []), w\<lparr>crontab := Some new_crontab\<rparr>)
      else Inr ((1, crontab_stderr e new_crontab), w))"

definition wrapper_content ::
  "env \<Rightarrow> world \<Rightarrow> (string \<times> string) list \<Rightarrow> string \<Rightarrow> string \<Rightarrow> string \<Rightarrow> string
     \<Rightarrow> string" where
  \<comment> \<open>lines 384 to 391\<close>
  "wrapper_content e w environment_vars venv_path python_path full_script_path script_dir =
     (let c0 = ''#!/bin/bash'' @ nl @ nl;
          c1 = foldl (\<lambda>acc (var, val).
                        acc @ ''export '' @ var @ ''='' @ [CHR 0x22] @ val @ [CHR 0x22] @ nl)
                 c0 environment_vars;
          c2 = (if path_exists e w venv_path
                then c1 @ ''source '' @ os_path_join venv_path [''bin'', ''activate''] @ nl
                else c1)
      in c2 @ nl @ python_path @ '' '' @ full_script_path @ '' > ''
           @ os_path_join script_dir [''cron_output.log''] @ '' 2>&1'' @ nl)"

record schedule_response =
  s_message :: string
  s_name :: string
  s_script_path :: string
  s_cron_expression :: string
  s_wrapper_path :: string

definition schedule_script ::
  "env \<Rightarrow> string \<Rightarrow> string \<Rightarrow> (string \<times> string) list \<Rightarrow> User \<Rightarrow> string \<Rightarrow> world
     \<Rightarrow> (py_exception + schedule_response) \<times> world" where
  "schedule_script e name cron_expression environment_vars current_user spath w =
     (case get_user_dir e (username current_user) w of
        Inl ex \<Rightarrow> (Inl ex, w)
      | Inr (user_dir, w1) \<Rightarrow>
          let full_script_path = os_path_join user_dir [spath] in
          if \<not> is_safe_path (cwd e) full_script_path user_dir
          then (Inl (HTTPException 403 ''Access denied to this path''), w1)
          else if \<not> path_exists e w1 full_script_path
          then (Inl (HTTPException 404 ''Script not found''), w1)
          else if length (split_ws cron_expression) \<noteq> 5
          then (Inl (HTTPException 400
                  (''Invalid cron expression. Must have 5 parts: ''
                     @ ''minute, hour, day of month, month, day of week'')), w1)
          else if os_name e \<noteq> ''posix''
          then (Inl (HTTPException 400
                  ''Script scheduling is only supported on Linux systems''), w1)
          else
            let script_dir = dirname full_script_path;
                venv_path = os_path_join script_dir [''.venv''];
                python_path = (if path_exists e w1 venv_path
                               then os_path_join venv_path [''bin'', ''python'']
                               else sys_executable e);
                wrapper_name = fst (splitext (basename full_script_path)) @ ''_wrapper.sh'';
                wrapper_path = os_path_join script_dir [wrapper_name];
                w2 = write_file e wrapper_path
                       (wrapper_content e w1 environment_vars venv_path python_path
                          full_script_path script_dir) w1;
                current_crontab = (case crontab_l e w2 of
                                     Inl _ \<Rightarrow> []
                                   | Inr (rc, out) \<Rightarrow> if rc \<noteq> 0 then [] else out);
                new_crontab = upsert_crontab current_crontab cron_expression wrapper_path name
            in (case crontab_install e new_crontab w2 of
                 Inl ex \<Rightarrow>
                   (Inl (HTTPException 500
                           (''Failed to schedule script: '' @ exc_str e ex)), w2)
               | Inr ((rc, err), w3) \<Rightarrow>
                   if rc \<noteq> 0
                   then (Inl (HTTPException 500 (''Failed to install crontab: '' @ err)), w3)
                   else (Inr \<lparr>s_message = ''Script scheduled successfully'',
                              s_name = name, s_script_path = spath,
                              s_cron_expression = cron_expression,
                              s_wrapper_path =
                                lstrip CHR ''/''
                                  (str_replace (str_replace wrapper_path user_dir [])
                                     [CHR 0x5C] ''/'')\<rparr>,
                         w3)))"

text \<open>
  The two regular expressions of \<open>list_scheduled_scripts\<close> have the shape
  \<open>pre(.*)post\<close> with literal \<open>pre\<close> and \<open>post\<close>. \<open>re.search\<close> takes the leftmost
  position where \<open>pre\<close> stands and a match exists; there the group is greedy: it
  runs to the last \<open>post\<close> it can reach without crossing a line feed.
\<close>

definition greedy_group :: "string \<Rightarrow> string \<Rightarrow> string option" where
  "greedy_group post s =
     (case filter (\<lambda>j. prefix post (drop j s) \<and> CHR 0x0A \<notin> set (take j s))
             (rev [0..<Suc (length s)]) of
        [] \<Rightarrow> None
      | j # _ \<Rightarrow> Some (take j s))"

fun re_search :: "string \<Rightarrow> string \<Rightarrow> string \<Rightarrow> string option" where
  "re_search pre post [] = (if pre = [] then greedy_group post [] else None)"
| "re_search pre post (c # cs) =
     (if prefix pre (c # cs)
      then (case greedy_group post (drop (length pre) (c # cs)) of
              Some g \<Rightarrow> Some g
            | None \<Rightarrow> re_search pre post cs)
      else re_search pre post cs)"

record scheduled =
  sch_name :: string
  sch_cron_expression :: string
  sch_script_path :: string

fun scheduled_scripts_loop :: "string list \<Rightarrow> scheduled list \<Rightarrow> scheduled list" where
  \<comment> \<open>lines 505 to 527\<close>
  "scheduled_scripts_loop [] scheduled_scripts = scheduled_scripts"
| "scheduled_scripts_loop (line # lines) scheduled_scripts =
     (case re_search ''# '' '' - managed by control-panel'' line of
        Some name \<Rightarrow>
          let cron_parts = take 5 (split_ws line);
              cron_expression = py_join '' '' cron_parts;
              spath = (case re_search ''python '' ''.py'' line of
                         Some g \<Rightarrow> g @ ''.py''
                       | None \<Rightarrow> ''Unknown'')
          in scheduled_scripts_loop lines
               (scheduled_scripts @
                  [\<lparr>sch_name = name, sch_cron_expression = cron_expression,
                    sch_script_path = spath\<rparr>])
      | None \<Rightarrow> scheduled_scripts_loop lines scheduled_scripts)"

definition list_scheduled_scripts :: "env \<Rightarrow> world \<Rightarrow> py_exception + scheduled list" where
  "list_scheduled_scripts e w =
     (if os_name e \<noteq> ''posix''
      then Inl (HTTPException 400 ''Script scheduling is only supported on Linux systems'')
      else case crontab_l e w of
             Inl ex \<Rightarrow>
               Inl (HTTPException 500 (''Failed to list scheduled scripts: '' @ exc_str e ex))
           | Inr (rc, current_crontab) \<Rightarrow>
               if rc \<noteq> 0 then Inr []
               else Inr (scheduled_scripts_loop (splitlines current_crontab) []))"

fun unschedule_loop :: "string \<Rightarrow> string list \<Rightarrow> bool \<Rightarrow> string list \<Rightarrow> bool \<times> string list" where
  \<comment> \<open>lines 579 to 587: \<open>found\<close> and \<open>new_crontab_lines\<close> after the loop\<close>
  "unschedule_loop name [] found new_crontab_lines = (found, new_crontab_lines)"
| "unschedule_loop name (line # lines) found new_crontab_lines =
     (if contains (marker name) line
      then unschedule_loop name lines True new_crontab_lines
      else unschedule_loop name lines found (new_crontab_lines @ [line]))"

definition unschedule_script ::
  "env \<Rightarrow> string \<Rightarrow> world \<Rightarrow> (py_exception + string \<times> string) \<times> world" where
  \<comment> \<open>the answer on success is the message and the name\<close>
  "unschedule_script e name w =
     (if os_name e \<noteq> ''posix''
      then (Inl (HTTPException 400
              ''Script scheduling is only supported on Linux systems''), w)
      else case crontab_l e w of
             Inl ex \<Rightarrow>
               (Inl (HTTPException 500
                       (''Failed to unschedule script: '' @ exc_str e ex)), w)
           | Inr (rc, current_crontab) \<Rightarrow>
               if rc \<noteq> 0 then (Inl (HTTPException 404 ''No crontab found''), w)
               else
                 (case unschedule_loop name (splitlines current_crontab) False [] of
                    (found, new_crontab_lines) \<Rightarrow>
                      if \<not> found
                      then (Inl (HTTPException 404
                              (''No scheduled script with name '' @ [CHR 0x27] @ name
                                 @ [CHR 0x27] @ '' found'')), w)
                      else
                        (case crontab_install e (py_join nl new_crontab_lines) w of
                           Inl ex \<Rightarrow>
                             (Inl (HTTPException 500
                                     (''Failed to unschedule script: '' @ exc_str e ex)), w)
                         | Inr ((rc2, err), w2) \<Rightarrow>
                             if rc2 \<noteq> 0
                             then (Inl (HTTPException 500
                                     (''Failed to install crontab: '' @ err)), w2)
                             else (Inr (''Script unscheduled successfully'', name), w2))))"

text \<open>Notions for stating what the three operations do to the table.\<close>

definition table_lines :: "world \<Rightarrow> string list" where
  \<comment> \<open>the lines of the installed table, as \<open>splitlines\<close> reads them\<close>
  "table_lines w = (case crontab w of None \<Rightarrow> [] | Some table \<Rightarrow> splitlines table)"

definition no_linebreak :: "string \<Rightarrow> bool" where
  "no_linebreak s = list_all (\<lambda>c. \<not> is_linebreak c) s"

definition wrapper_path_of :: "env \<Rightarrow> User \<Rightarrow> string \<Rightarrow> string" where
  \<comment> \<open>the \<open>wrapper_path\<close> that \<open>schedule_script\<close> computes for a user and a script\<close>
  "wrapper_path_of e u spath =
     (let full_script_path = os_path_join (os_path_join (BASE_DIR e) [username u]) [spath]
      in os_path_join (dirname full_script_path)
           [fst (splitext (basename full_script_path)) @ ''_wrapper.sh''])"

definition entry_line :: "string \<Rightarrow> string \<Rightarrow> string \<Rightarrow> string" where
  \<comment> \<open>\<open>cron_entry\<close> without its final line feed\<close>
  "entry_line cron_expression wrapper_path name =
     cron_expression @ '' '' @ wrapper_path @ '' '' @ marker name"

text \<open>
  Sequences of the two operations that change the table: each operation is run on
  the host that the one before it left, whether it succeeded or not.
\<close>

datatype table_op =
    Upsert string string "(string \<times> string) list" User string
  | Remove string

fun apply_op :: "env \<Rightarrow> world \<Rightarrow> table_op \<Rightarrow> world" where
  "apply_op e w (Upsert name cron_expression environment_vars current_user spath) =
     snd (schedule_script e name cron_expression environment_vars current_user spath w)"
| "apply_op e w (Remove name) = snd (unschedule_script e name w)"

definition run_ops :: "env \<Rightarrow> table_op list \<Rightarrow> world \<Rightarrow> world" where
  "run_ops e ops w = foldl (apply_op e) w ops"

definition marker_lines :: "string \<Rightarrow> world \<Rightarrow> string list" where
  \<comment> \<open>the lines of the table that contain the marker of a name\<close>
  "marker_lines n w = filter (contains (marker n)) (table_lines w)"

fun entry_apart :: "env \<Rightarrow> string \<Rightarrow> table_op \<Rightarrow> bool" where
  \<comment> \<open>the entry that an upsert generates has no line break in it and, unless the
      upsert is for the name \<open>n\<close> itself, does not contain the marker of \<open>n\<close>\<close>
  "entry_apart e n (Upsert name cron_expression environment_vars current_user spath) =
     (let line = entry_line cron_expression (wrapper_path_of e current_user spath) name
      in no_linebreak line \<and> (name = n \<or> \<not> contains (marker n) line))"
| "entry_apart e n (Remove name) = True"

section \<open>Terminal sessions (routers/terminal.py)\<close>

text \<open>
  \<open>active_sessions\<close> is a dictionary from session id to process handle; the model
  keeps it as an association list in insertion order, and a process handle is the
  number of the process. Terminating a process is recorded in \<open>terminated\<close>;
  \<open>terminate\<close> is taken to succeed (for a shell that has already exited it raises,
  which is not modelled).
\<close>

record sessions =
  active_sessions :: "(string \<times> nat) list"
  terminated :: "nat list"

definition new_session_id :: "string \<Rightarrow> nat \<Rightarrow> string" where
  \<comment> \<open>line 55: \<open>f"{username}_{id(websocket)}"\<close>\<close>
  "new_session_id uname ws_id = uname @ ''_'' @ str_nat ws_id"

definition register_session :: "string \<Rightarrow> nat \<Rightarrow> nat \<Rightarrow> sessions \<Rightarrow> sessions" where
  \<comment> \<open>lines 55 to 70 of \<open>terminal_websocket\<close>: the session of \<open>uname\<close> on the
      connection \<open>ws_id\<close> with the spawned process \<open>process\<close>\<close>
  "register_session uname ws_id process st =
     st\<lparr>active_sessions :=
          AList.update (new_session_id uname ws_id) process (active_sessions st)\<rparr>"

definition list_terminal_sessions :: "User \<Rightarrow> sessions \<Rightarrow> string list" where
  "list_terminal_sessions current_user st =
     (if role current_user = ADMIN then map fst (active_sessions st)
      else filter (\<lambda>session_id. startswith session_id (username current_user @ ''_''))
             (map fst (active_sessions st)))"


text \<open>
  The inbound flow. The channel delivers the frames of \<open>messages\<close> and then closes
  (\<open>receive_text\<close> raises, which ends the loop). The input stream of the process
  is the list of byte strings written to it while it is open; a write to a closed
  stream raises, which ends the loop as well. \<open>encode\<close> is \<open>str.encode\<close>.
\<close>

record 'b stdin =
  written :: "'b list"
  is_open :: bool

definition unpack3 :: "'a list \<Rightarrow> py_exception + 'a \<times> 'a \<times> 'a" where
  \<comment> \<open>\<open>_, cols, rows = xs\<close>\<close>
  "unpack3 xs = (case xs of [a, b, c] \<Rightarrow> Inr (a, b, c) | _ \<Rightarrow> Inl ValueError)"

definition reaches_continue :: "string \<Rightarrow> bool" where
  \<comment> \<open>lines 144 to 151: the \<open>continue\<close> is reached when the frame starts with the
      prefix and the unpacking in the \<open>try\<close> does not raise; \<open>except Exception: pass\<close>
      falls through to the write\<close>
  "reaches_continue message =
     (if startswith message ''__RESIZE:''
      then (case unpack3 (py_split CHR '':'' message) of
              Inr _ \<Rightarrow> True
            | Inl _ \<Rightarrow> False)
      else False)"

fun write_to_process :: "(string \<Rightarrow> 'b) \<Rightarrow> string list \<Rightarrow> 'b stdin \<Rightarrow> 'b stdin" where
  "write_to_process encode [] process = process"
| "write_to_process encode (message # messages) process =
     (if reaches_continue message
      then write_to_process encode messages process
      else if is_open process
      then write_to_process encode messages
             (process\<lparr>written := written process @ [encode message]\<rparr>)
      else process)"

section \<open>An example host\<close>

text \<open>
  A host to run the routers on: the user \<open>alice\<close> has the script \<open>job.py\<close>, a
  virtual environment beside it and an older \<open>requirements.txt\<close>. \<open>str(e)\<close>
  prints an \<open>HTTPException\<close> as its status code, a colon and its detail. What the
  spawned programs do is the parameter \<open>sp\<close>.
\<close>

definition example_str :: "py_exception \<Rightarrow> string" where
  "example_str ex =
     (case ex of
        HTTPException code d \<Rightarrow> str_nat code @ '': '' @ d
      | IndexError \<Rightarrow> ''list index out of range''
      | ValueError \<Rightarrow> ''not enough values to unpack''
      | TimeoutError \<Rightarrow> []
      | OSError d \<Rightarrow> d
      | UnicodeDecodeError \<Rightarrow> ''invalid start byte'')"

definition example_env ::
  "(world \<Rightarrow> string list \<Rightarrow> string option \<Rightarrow> proc_behaviour) \<Rightarrow> env" where
  "example_env sp =
     \<lparr>os_name = ''posix'', cwd = ''/srv/app'', BASE_DIR = ''/home'',
      sys_executable = ''/usr/bin/python3'', exc_str = example_str, spawn = sp,
      crontab_l_ok = True, crontab_runs = True, crontab_accepts = (\<lambda>table. True),
      crontab_stderr = (\<lambda>table. [])\<rparr>"

definition example_world :: world where
  "example_world =
     \<lparr>fs = [''/home/alice'' \<mapsto> Dir,
             ''/home/alice/job.py'' \<mapsto> File ''print(1)'',
             ''/home/alice/.venv'' \<mapsto> Dir,
             ''/home/alice/.venv/bin/pip'' \<mapsto> File [],
             ''/home/alice/requirements.txt'' \<mapsto> File ''flask''],
      crontab = None, killed = []\<rparr>"

definition alice :: User where
  "alice = \<lparr>username = ''alice'', role = USER\<rparr>"

definition shared_table_world :: world where
  \<comment> \<open>the example host with a table that holds a comment, a hand-written entry and an
      entry managed for another script\<close>
  "shared_table_world =
     example_world\<lparr>crontab := Some
       (''# nightly clean-up'' @ nl @
        ''15 2 * * * /opt/clean.sh'' @ nl @
        ''0 1 * * * /home/bob/report_wrapper.sh # report - managed by control-panel'' @ nl)\<rparr>"

definition sleeps_5_prints_done :: "world \<Rightarrow> string list \<Rightarrow> string option \<Rightarrow> proc_behaviour" where
  \<comment> \<open>a script that sleeps five seconds, prints \<open>done\<close> and exits with code 0\<close>
  "sleeps_5_prints_done w argv dir = Runs 5 0 ''done'' []"

definition pip_fails :: "world \<Rightarrow> string list \<Rightarrow> string option \<Rightarrow> proc_behaviour" where
  \<comment> \<open>an installer that exits with code 1\<close>
  "pip_fails w argv dir = Runs 2 1 [] ''ERROR: No matching distribution found for nosuchpkg''"

section \<open>Terminal sessions: results\<close>




text \<open>
  C7. \<open>list_terminal_sessions\<close> for an ordinary requester keeps the ids that start
  with the requester's name and an underscore. The claim says that such a requester
  sees exactly the sessions it owns. The two differ when one user name continues
  another after an underscore: with the sessions of \<open>bob\<close> and of \<open>bob_smith\<close>
  registered, the ordinary user \<open>bob\<close> is shown the session of \<open>bob_smith\<close> too.
\<close>

theorem list_sessions_shows_other_tenant:
  "list_terminal_sessions \<lparr>username = ''bob'', role = USER\<rparr>
     (register_session ''bob_smith'' 140 7
        (register_session ''bob'' 139 6 \<lparr>active_sessions = [], terminated = []\<rparr>))
     = [''bob_139'', ''bob_smith_140'']"
  by code_simp

lemma reaches_continue_iff:
  "reaches_continue m \<longleftrightarrow>
     startswith m ''__RESIZE:'' \<and> length (py_split CHR '':'' m) = 3"
  by (auto simp: reaches_continue_def unpack3_def split: list.splits)

text \<open>
  C8, as the claim states it, fails: a frame that begins with the resize prefix but
  does not split at its colons into exactly three fields makes the unpacking raise,
  the handler passes, and the frame is written to the process like any other.
\<close>

theorem resize_prefix_frame_written:
  "startswith ''__RESIZE:80'' ''__RESIZE:'' \<and>
   written (write_to_process (\<lambda>s. s) [''__RESIZE:80''] \<lparr>written = [], is_open = True\<rparr>)
     = [''__RESIZE:80'']"
  by code_simp

text \<open>
  C8, amended. While the input stream of the process is open, the inbound flow
  consumes exactly the frames that begin with the resize prefix and have three
  colon-separated fields, and writes every other frame, encoded and otherwise
  unmodified, in the order received.
\<close>

theorem write_to_process_writes:
  "is_open p \<Longrightarrow>
   write_to_process encode messages p =
     p\<lparr>written := written p @
          map encode
            (filter (\<lambda>m. \<not> (startswith m ''__RESIZE:'' \<and> length (py_split CHR '':'' m) = 3))
               messages)\<rparr>"
proof (induction messages arbitrary: p)
  case Nil
  then show ?case by simp
next
  case (Cons m ms)
  let ?keep = "\<lambda>m. \<not> (startswith m ''__RESIZE:'' \<and> length (py_split CHR '':'' m) = 3)"
  show ?case
  proof (cases "reaches_continue m")
    case True
    then have "\<not> ?keep m" by (simp add: reaches_continue_iff)
    then have "filter ?keep (m # ms) = filter ?keep ms" by simp
    moreover have "write_to_process encode (m # ms) p = write_to_process encode ms p"
      using True by simp
    ultimately show ?thesis using Cons.IH [OF Cons.prems] by metis
  next
    case False
    let ?q = "p\<lparr>written := written p @ [encode m]\<rparr>"
    have keep: "?keep m" using False by (simp add: reaches_continue_iff)
    have step: "write_to_process encode (m # ms) p = write_to_process encode ms ?q"
      using False Cons.prems by simp
    have "is_open ?q" using Cons.prems by simp
    from Cons.IH [OF this]
    have "write_to_process encode ms ?q =
            p\<lparr>written := written p @ encode m # map encode (filter ?keep ms)\<rparr>"
      by simp
    moreover have "filter ?keep (m # ms) = m # filter ?keep ms"
      using keep by simp
    ultimately show ?thesis using step by (metis list.simps(9))
  qed
qed

theorem write_to_process_writes_witness:
  "is_open \<lparr>written = [], is_open = True\<rparr> \<and>
   write_to_process (\<lambda>s. s) [''ls'', ''__RESIZE:80:24'', ''__RESIZE:oops'', ''pwd'']
      \<lparr>written = [], is_open = True\<rparr>
     = \<lparr>written = [''ls'', ''__RESIZE:oops'', ''pwd''], is_open = True\<rparr>"
  using write_to_process_writes [of "\<lparr>written = [], is_open = True\<rparr>" "\<lambda>s. s"
      "[''ls'', ''__RESIZE:80:24'', ''__RESIZE:oops'', ''pwd'']"]
  by (simp add: startswith_def)

section \<open>The path check: results\<close>

text \<open>
  C1. \<open>is_safe_path\<close> compares the two normalised paths as strings. For the user
  directory \<open>/home/alice\<close> and the relative path \<open>../alice-evil/secret.txt\<close> the
  joined path normalises to \<open>/home/alice-evil/secret.txt\<close>, which lies outside the
  user directory (the directory names of the root are no prefix of its directory
  names), and the check accepts it, where the claim has it rejected.
\<close>

theorem is_safe_path_accepts_sibling:
  "is_safe_path ''/srv/app''
     (os_path_join ''/home/alice'' [''../alice-evil/secret.txt'']) ''/home/alice'' \<and>
   abspath ''/srv/app'' (os_path_join ''/home/alice'' [''../alice-evil/secret.txt''])
     = ''/home/alice-evil/secret.txt'' \<and>
   \<not> prefix (path_segments (abspath ''/srv/app'' ''/home/alice''))
        (path_segments
           (abspath ''/srv/app''
              (os_path_join ''/home/alice'' [''../alice-evil/secret.txt''])))"
  by code_simp

section \<open>Running scripts and installing requirements: results\<close>

lemma example_user_dir:
  "get_user_dir (example_env sp) (username alice) example_world = Inr (''/home/alice'', example_world)"
proof -
  have "abspath ''/srv/app'' ''/home/alice'' = ''/home/alice''" by code_simp
  moreover have "os_path_join ''/home'' [''alice''] = ''/home/alice''" by code_simp
  ultimately show ?thesis
    by (simp add: get_user_dir_def makedirs_def example_env_def example_world_def alice_def Let_def)
qed

text \<open>
  C2. Once the path checks have passed and the interpreter has started, the answer
  of \<open>run_script\<close> is decided by the race alone. A script that exits before the
  timer fires gets its return code and its captured output back, whatever the
  return code. A script that does not is killed and its output is dropped, but the
  408 raised for it is caught by the handler of the enclosing \<open>try\<close> and the
  caller is answered 500, the answer of a failed launch, not a timeout of its own.
\<close>

theorem run_script_outcome:
  assumes "get_user_dir e (username u) w = Inr (user_dir, w1)"
    and "full = os_path_join user_dir [spath]"
    and "is_safe_path (cwd e) full user_dir"
    and "path_exists e w1 full"
    and "argv = venv_python e w1 (os_path_join (dirname full) [''.venv'']) # full # args"
    and "spawn e w1 argv (Some (dirname full)) = Runs seconds rc out err"
  shows "run_script e spath u args timeout w =
     (if int seconds < timeout
      then (Inr \<lparr>r_message = (if rc = 0 then ''Script executed successfully''
                               else ''Script execution failed''),
                r_returncode = rc, r_stdout = out, r_stderr = err, r_script_path = spath\<rparr>,
            w1)
      else (Inl (HTTPException 500
                   (''Failed to run script: '' @
                    exc_str e (HTTPException 408
                      (''Script execution timed out after '' @ str_int timeout @ '' seconds'')))),
            w1\<lparr>killed := killed w1 @ [argv]\<rparr>))"
  using assms
  by (simp add: run_script_def run_script_try_def wait_for_def Let_def)

theorem run_script_outcome_witness:
  "run_script (example_env sleeps_5_prints_done) ''job.py'' alice [] 1 example_world =
     (Inl (HTTPException 500
        ''Failed to run script: 408: Script execution timed out after 1 seconds''),
      example_world\<lparr>killed := [[''/home/alice/.venv/bin/python'', ''/home/alice/job.py'']]\<rparr>)"
proof -
  let ?e = "example_env sleeps_5_prints_done"
  have full: "''/home/alice/job.py'' = os_path_join ''/home/alice'' [''job.py'']" by code_simp
  have safe: "is_safe_path (cwd ?e) ''/home/alice/job.py'' ''/home/alice''" by code_simp
  have ex: "path_exists ?e example_world ''/home/alice/job.py''" by code_simp
  have argv: "[''/home/alice/.venv/bin/python'', ''/home/alice/job.py''] =
      venv_python ?e example_world (os_path_join (dirname ''/home/alice/job.py'') [''.venv''])
        # ''/home/alice/job.py'' # []" by code_simp
  have sp: "spawn ?e example_world [''/home/alice/.venv/bin/python'', ''/home/alice/job.py'']
      (Some (dirname ''/home/alice/job.py'')) = Runs 5 0 ''done'' []"
    by (simp add: example_env_def sleeps_5_prints_done_def)
  have s: "example_str (HTTPException 408 ''Script execution timed out after 1 seconds'')
     = ''408: Script execution timed out after 1 seconds''" by code_simp
  have t: "str_int 1 = ''1''" by code_simp
  have k: "killed example_world = []" by (simp add: example_world_def)
  have x: "exc_str ?e = example_str" by (simp add: example_env_def)
  show ?thesis
    using run_script_outcome [OF example_user_dir full safe ex argv sp, of 1]
    by (simp add: s t k x)
qed

text \<open>
  C9. \<open>install_requirements\<close> writes the package list to \<open>requirements.txt\<close>
  beside the script before it looks for the installer. When the installer then
  exits with a return code other than 0, the call answers 500 and the host it
  leaves behind holds the new list in the manifest: nothing restores the content
  from before the call.
\<close>

theorem install_failure_keeps_new_manifest:
  assumes "get_user_dir e (username u) w = Inr (user_dir, w1)"
    and "full = os_path_join user_dir [spath]"
    and "is_safe_path (cwd e) full user_dir"
    and "path_exists e w1 full"
    and "venv_path = os_path_join (dirname full) [''.venv'']"
    and "path_exists e w1 venv_path"
    and "req_file = os_path_join (dirname full) [''requirements.txt'']"
    and "w2 = write_file e req_file (py_join nl reqs) w1"
    and "pip_path = (if os_name e = ''nt'' then os_path_join venv_path [''Scripts'', ''pip.exe'']
                     else os_path_join venv_path [''bin'', ''pip''])"
    and "path_exists e w2 pip_path"
    and "spawn e w2 [pip_path, ''install'', ''-r'', req_file] None = Runs seconds rc out err"
    and "rc \<noteq> 0"
  shows "install_requirements e reqs u spath w =
           (Inl (HTTPException 500
                   (''Failed to install requirements: '' @
                    exc_str e (HTTPException 500 (''Failed to install requirements: '' @ err)))),
            w2) \<and>
         fs w2 (abspath (cwd e) req_file) = Some (File (py_join nl reqs))"
proof -
  have "fs w2 (abspath (cwd e) req_file) = Some (File (py_join nl reqs))"
    using assms(8) by (simp add: write_file_def)
  moreover have "install_requirements e reqs u spath w =
           (Inl (HTTPException 500
                   (''Failed to install requirements: '' @
                    exc_str e (HTTPException 500 (''Failed to install requirements: '' @ err)))),
            w2)"
    using assms by (auto simp add: install_requirements_def install_try_def Let_def)
  ultimately show ?thesis by simp
qed

theorem install_failure_keeps_new_manifest_witness:
  "fst (install_requirements (example_env pip_fails) [''requests'', ''nosuchpkg''] alice ''job.py''
          example_world)
     = Inl (HTTPException 500
         (''Failed to install requirements: 500: Failed to install requirements: '' @
          ''ERROR: No matching distribution found for nosuchpkg'')) \<and>
   fs example_world ''/home/alice/requirements.txt'' = Some (File ''flask'') \<and>
   fs (snd (install_requirements (example_env pip_fails) [''requests'', ''nosuchpkg''] alice
              ''job.py'' example_world)) ''/home/alice/requirements.txt''
     = Some (File (''requests'' @ nl @ ''nosuchpkg''))"
proof -
  let ?e = "example_env pip_fails"
  let ?w2 = "write_file ?e ''/home/alice/requirements.txt''
               (py_join nl [''requests'', ''nosuchpkg'']) example_world"
  have full: "''/home/alice/job.py'' = os_path_join ''/home/alice'' [''job.py'']" by code_simp
  have safe: "is_safe_path (cwd ?e) ''/home/alice/job.py'' ''/home/alice''" by code_simp
  have ex: "path_exists ?e example_world ''/home/alice/job.py''" by code_simp
  have venv: "''/home/alice/.venv'' = os_path_join (dirname ''/home/alice/job.py'') [''.venv'']"
    by code_simp
  have vex: "path_exists ?e example_world ''/home/alice/.venv''" by code_simp
  have req: "''/home/alice/requirements.txt''
      = os_path_join (dirname ''/home/alice/job.py'') [''requirements.txt'']" by code_simp
  have pip: "''/home/alice/.venv/bin/pip'' =
      (if os_name ?e = ''nt'' then os_path_join ''/home/alice/.venv'' [''Scripts'', ''pip.exe'']
       else os_path_join ''/home/alice/.venv'' [''bin'', ''pip''])" by code_simp
  have pex: "path_exists ?e ?w2 ''/home/alice/.venv/bin/pip''" by code_simp
  have sp: "spawn ?e ?w2 [''/home/alice/.venv/bin/pip'', ''install'', ''-r'',
       ''/home/alice/requirements.txt''] None
     = Runs 2 1 [] ''ERROR: No matching distribution found for nosuchpkg''"
    by (simp add: example_env_def pip_fails_def)
  have rc: "(1::int) \<noteq> 0" by simp
  have a: "abspath (cwd ?e) ''/home/alice/requirements.txt'' = ''/home/alice/requirements.txt''"
    by code_simp
  have s: "exc_str ?e (HTTPException 500
       ''Failed to install requirements: ERROR: No matching distribution found for nosuchpkg'')
     = ''500: Failed to install requirements: ERROR: No matching distribution found for nosuchpkg''"
    by code_simp
  have j: "py_join nl [''requests'', ''nosuchpkg''] = ''requests'' @ nl @ ''nosuchpkg''"
    by simp
  have old: "fs example_world ''/home/alice/requirements.txt'' = Some (File ''flask'')"
    by (simp add: example_world_def)
  show ?thesis
    using install_failure_keeps_new_manifest
      [OF example_user_dir full safe ex venv vex req refl pip pex sp rc]
    by (simp add: a s j old)
qed

section \<open>The schedule table: results\<close>

text \<open>
  C6. The line that \<open>schedule_script\<close> appends names the wrapper script, while
  \<open>list_scheduled_scripts\<close> looks for \<open>python \<dots>.py\<close> in the line to find the
  script path. On the example host, after \<open>job.py\<close> is scheduled as \<open>backup\<close>, the
  listing has the name and the cron expression right and gives \<open>Unknown\<close> as the
  script path, where the claim expects the script path that was scheduled.
\<close>

theorem list_after_schedule_unknown_path:
  "fst (schedule_script (example_env sleeps_5_prints_done) ''backup'' ''0 3 * * *'' [] alice
          ''job.py'' example_world)
     = Inr \<lparr>s_message = ''Script scheduled successfully'', s_name = ''backup'',
            s_script_path = ''job.py'', s_cron_expression = ''0 3 * * *'',
            s_wrapper_path = ''job_wrapper.sh''\<rparr> \<and>
   list_scheduled_scripts (example_env sleeps_5_prints_done)
     (snd (schedule_script (example_env sleeps_5_prints_done) ''backup'' ''0 3 * * *'' [] alice
             ''job.py'' example_world))
     = Inr [\<lparr>sch_name = ''backup'', sch_cron_expression = ''0 3 * * *'',
             sch_script_path = ''Unknown''\<rparr>]"
  by code_simp

lemma contains_sublist: "contains n h \<longleftrightarrow> sublist n h"
  by (induction h) (auto simp: sublist_Cons_right)

lemma contains_entry_line: "contains (marker name) (entry_line c wp name)"
  unfolding contains_sublist entry_line_def sublist_def
  by (rule exI [of _ "c @ '' '' @ wp @ '' ''"], rule exI [of _ "[]"]) simp

lemma cron_entry_line: "cron_entry c wp name = entry_line c wp name @ nl"
  by (simp add: cron_entry_def entry_line_def marker_def)

lemma unschedule_loop_eq:
  "unschedule_loop name ls found acc =
     (found \<or> (\<exists>l \<in> set ls. contains (marker name) l),
      acc @ filter (\<lambda>l. \<not> contains (marker name) l) ls)"
  by (induction ls arbitrary: found acc) auto

lemma splitlines_from_plain:
  "no_linebreak x \<Longrightarrow> splitlines_from cur x = (if cur @ x = [] then [] else [cur @ x])"
proof (induction cur x rule: splitlines_from.induct)
  case (1 cur)
  then show ?case by simp
next
  case (2 cur c)
  then show ?case by (simp add: no_linebreak_def)
next
  case (3 cur c d cs)
  from "3.prems" have c: "\<not> is_linebreak c" and rest: "no_linebreak (d # cs)"
    by (simp_all add: no_linebreak_def)
  from c have "c \<noteq> CHR 0x0D" by (auto simp: is_linebreak_def)
  with c rest "3.IH" show ?case by simp
qed

lemma splitlines_from_line:
  "no_linebreak x \<Longrightarrow>
   splitlines_from cur (x @ nl @ rest) = (cur @ x) # splitlines_from [] rest"
proof (induction x arbitrary: cur)
  case Nil
  have "is_linebreak CHR 0x0A" by (simp add: is_linebreak_def)
  then show ?case by (cases rest) simp_all
next
  case (Cons c x)
  from Cons.prems have c: "\<not> is_linebreak c" and x: "no_linebreak x"
    by (simp_all add: no_linebreak_def)
  from c have ncr: "c \<noteq> CHR 0x0D" by (auto simp: is_linebreak_def)
  obtain d cs where tail: "x @ nl @ rest = d # cs"
    by (cases "x @ nl @ rest") auto
  have "splitlines_from cur ((c # x) @ nl @ rest) = splitlines_from cur (c # d # cs)"
    using tail by simp
  also have "\<dots> = splitlines_from (cur @ [c]) (d # cs)"
    using c ncr by simp
  also have "\<dots> = ((cur @ [c]) @ x) # splitlines_from [] rest"
    using Cons.IH [OF x, of "cur @ [c]"] tail by simp
  finally show ?case by simp
qed

lemma splitlines_from_no_linebreak:
  "no_linebreak cur \<Longrightarrow> l \<in> set (splitlines_from cur s) \<Longrightarrow> no_linebreak l"
proof (induction cur s rule: splitlines_from.induct)
  case (1 cur)
  then show ?case by (auto split: if_splits)
next
  case (2 cur c)
  then show ?case by (auto simp: no_linebreak_def split: if_splits)
next
  case (3 cur c d cs)
  have e: "no_linebreak []" by (simp add: no_linebreak_def)
  show ?case
  proof (cases "c = CHR 0x0D \<and> d = CHR 0x0A")
    case True
    with 3 e show ?thesis by auto
  next
    case False
    show ?thesis
    proof (cases "is_linebreak c")
      case True
      with False 3 e show ?thesis by auto
    next
      case nb: False
      then have "no_linebreak (cur @ [c])" using "3.prems"(1) by (simp add: no_linebreak_def)
      with False nb 3 show ?thesis by auto
    qed
  qed
qed

lemma splitlines_no_linebreak: "l \<in> set (splitlines s) \<Longrightarrow> no_linebreak l"
  unfolding splitlines_def
  by (rule splitlines_from_no_linebreak [of "[]"]) (simp_all add: no_linebreak_def)

lemma table_lines_no_linebreak: "l \<in> set (table_lines w) \<Longrightarrow> no_linebreak l"
  by (auto simp: table_lines_def splitlines_no_linebreak split: option.splits)

lemma splitlines_join:
  "(\<And>l. l \<in> set ls \<Longrightarrow> no_linebreak l) \<Longrightarrow>
   splitlines (py_join nl ls) = (if ls \<noteq> [] \<and> last ls = [] then butlast ls else ls)"
proof (induction ls)
  case Nil
  then show ?case by (simp add: splitlines_def)
next
  case (Cons x ls)
  have x: "no_linebreak x" using Cons.prems by simp
  show ?case
  proof (cases ls)
    case Nil
    with x show ?thesis by (simp add: splitlines_def splitlines_from_plain)
  next
    case (Cons y ys)
    have "splitlines (py_join nl (x # y # ys)) = x # splitlines (py_join nl (y # ys))"
      using splitlines_from_line [OF x, of "[]" "py_join nl (y # ys)"]
      by (simp add: splitlines_def)
    moreover have "splitlines (py_join nl (y # ys)) =
        (if last (y # ys) = [] then butlast (y # ys) else y # ys)"
      using Cons.IH Cons.prems Cons by simp
    ultimately show ?thesis using Cons by simp
  qed
qed

lemma splitlines_join_entry:
  "(\<And>l. l \<in> set ls \<Longrightarrow> no_linebreak l) \<Longrightarrow>
   splitlines (py_join nl (ls @ [x @ nl])) = ls @ splitlines (x @ nl)"
proof (induction ls)
  case Nil
  then show ?case by simp
next
  case (Cons l ls)
  have l: "no_linebreak l" using Cons.prems by simp
  obtain y ys where rest: "ls @ [x @ nl] = y # ys" by (cases "ls @ [x @ nl]") auto
  have "py_join nl ((l # ls) @ [x @ nl]) = l @ nl @ py_join nl (ls @ [x @ nl])"
    using rest by simp
  then have "splitlines (py_join nl ((l # ls) @ [x @ nl]))
      = l # splitlines (py_join nl (ls @ [x @ nl]))"
    using splitlines_from_line [OF l, of "[]" "py_join nl (ls @ [x @ nl])"]
    by (simp add: splitlines_def)
  with Cons show ?case by simp
qed

lemma splitlines_entry: "no_linebreak x \<Longrightarrow> splitlines (x @ nl) = [x]"
  using splitlines_from_line [of x "[]" "[]"] by (simp add: splitlines_def)

lemma get_user_dir_Inr:
  "get_user_dir e n w = Inr (ud, w1) \<Longrightarrow>
   ud = os_path_join (BASE_DIR e) [n] \<and> crontab w1 = crontab w"
  by (auto simp: get_user_dir_def makedirs_def Let_def split: option.splits node.splits)

lemma schedule_script_success:
  assumes "schedule_script e name c envs u spath w = (Inr r, w')"
  shows "crontab w' =
    Some (upsert_crontab
            (if crontab_l_ok e then (case crontab w of None \<Rightarrow> [] | Some t \<Rightarrow> t) else [])
            c (wrapper_path_of e u spath) name)"
proof (cases "get_user_dir e (username u) w")
  case (Inl ex)
  with assms show ?thesis by (simp add: schedule_script_def)
next
  case (Inr p)
  obtain ud w1 where p: "p = (ud, w1)" by (cases p)
  from Inr p get_user_dir_Inr [of e "username u" w ud w1]
  have ud: "ud = os_path_join (BASE_DIR e) [username u]" and ct: "crontab w1 = crontab w"
    by simp_all
  from assms Inr p ct show ?thesis
    unfolding ud
    by (auto simp: schedule_script_def Let_def crontab_l_def crontab_install_def
          write_file_def wrapper_path_of_def
        split: if_splits option.splits sum.splits prod.splits)
qed

lemma unschedule_script_success:
  assumes "unschedule_script e name w = (Inr a, w')"
  shows "crontab w' =
    Some (py_join nl (filter (\<lambda>l. \<not> contains (marker name) l) (table_lines w)))"
  using assms
  by (auto simp: unschedule_script_def crontab_l_def crontab_install_def table_lines_def
        unschedule_loop_eq
      split: if_splits option.splits sum.splits prod.splits)

lemma table_lines_after_schedule:
  assumes "schedule_script e name c envs u spath w = (Inr r, w')"
  shows "table_lines w' =
    filter (\<lambda>l. \<not> contains (marker name) l) (if crontab_l_ok e then table_lines w else [])
      @ splitlines (cron_entry c (wrapper_path_of e u spath) name)"
proof -
  let ?cur = "if crontab_l_ok e then (case crontab w of None \<Rightarrow> [] | Some t \<Rightarrow> t) else []"
  have cur: "splitlines ?cur = (if crontab_l_ok e then table_lines w else [])"
    by (simp add: table_lines_def splitlines_def split: option.splits)
  have nb: "\<And>l. l \<in> set (if crontab_l_ok e then table_lines w else []) \<Longrightarrow> no_linebreak l"
    by (auto intro: table_lines_no_linebreak split: if_splits)
  have "table_lines w' = splitlines (upsert_crontab ?cur c (wrapper_path_of e u spath) name)"
    using schedule_script_success [OF assms] by (simp add: table_lines_def)
  also have "\<dots> =
      filter (\<lambda>l. \<not> contains (marker name) l) (if crontab_l_ok e then table_lines w else [])
      @ splitlines (cron_entry c (wrapper_path_of e u spath) name)"
    unfolding upsert_crontab_def Let_def cur cron_entry_line
    by (rule splitlines_join_entry) (use nb in auto)
  finally show ?thesis .
qed

lemma table_lines_after_unschedule:
  assumes "unschedule_script e name w = (Inr a, w')"
  shows "table_lines w' =
    (let kept = filter (\<lambda>l. \<not> contains (marker name) l) (table_lines w)
     in if kept \<noteq> [] \<and> last kept = [] then butlast kept else kept)"
proof -
  have "table_lines w' =
      splitlines (py_join nl (filter (\<lambda>l. \<not> contains (marker name) l) (table_lines w)))"
    using unschedule_script_success [OF assms] by (simp add: table_lines_def)
  also have "\<dots> = (let kept = filter (\<lambda>l. \<not> contains (marker name) l) (table_lines w)
     in if kept \<noteq> [] \<and> last kept = [] then butlast kept else kept)"
    unfolding Let_def
    by (rule splitlines_join) (auto intro: table_lines_no_linebreak)
  finally show ?thesis .
qed

lemma schedule_script_failure:
  assumes "schedule_script e name c envs u spath w = (Inl x, w')"
  shows "crontab w' = crontab w"
proof (cases "get_user_dir e (username u) w")
  case (Inl ex)
  with assms show ?thesis by (simp add: schedule_script_def)
next
  case (Inr p)
  obtain ud w1 where p: "p = (ud, w1)" by (cases p)
  from Inr p get_user_dir_Inr [of e "username u" w ud w1]
  have ct: "crontab w1 = crontab w" by simp
  from assms Inr p ct show ?thesis
    by (auto simp: schedule_script_def Let_def crontab_install_def write_file_def
        split: if_splits option.splits sum.splits prod.splits)
qed

lemma unschedule_script_failure:
  assumes "unschedule_script e name w = (Inl x, w')"
  shows "crontab w' = crontab w"
  using assms
  by (auto simp: unschedule_script_def crontab_install_def
      split: if_splits option.splits sum.splits prod.splits)

lemma length_filter_filter_le:
  "length (filter P (filter Q xs)) \<le> length (filter P xs)"
  by (induction xs) auto

lemma length_filter_butlast_le:
  "length (filter P (butlast xs)) \<le> length (filter P xs)"
  by (induction xs) auto

lemma marker_lines_after_schedule:
  assumes ok: "schedule_script e name c envs u spath w = (Inr r, w')"
    and nb: "no_linebreak (entry_line c (wrapper_path_of e u spath) name)"
  shows "marker_lines n w' =
     filter (contains (marker n))
       (filter (\<lambda>l. \<not> contains (marker name) l)
          (if crontab_l_ok e then table_lines w else []))
     @ (if contains (marker n) (entry_line c (wrapper_path_of e u spath) name)
        then [entry_line c (wrapper_path_of e u spath) name] else [])"
  using table_lines_after_schedule [OF ok] splitlines_entry [OF nb]
  by (simp add: marker_lines_def cron_entry_line del: filter_filter)

lemma apply_op_keeps_one:
  assumes "entry_apart e n op" and "length (marker_lines n w) \<le> 1"
  shows "length (marker_lines n (apply_op e w op)) \<le> 1"
proof (cases op)
  case (Upsert name c envs u spath)
  let ?line = "entry_line c (wrapper_path_of e u spath) name"
  from assms(1) Upsert have nb: "no_linebreak ?line"
    and apart: "name = n \<or> \<not> contains (marker n) ?line"
    by (simp_all add: Let_def)
  obtain res w' where run: "schedule_script e name c envs u spath w = (res, w')"
    by (cases "schedule_script e name c envs u spath w")
  show ?thesis
  proof (cases res)
    case (Inl x)
    with run have "crontab w' = crontab w" using schedule_script_failure by blast
    then have "marker_lines n w' = marker_lines n w"
      by (simp add: marker_lines_def table_lines_def)
    with assms(2) Upsert run show ?thesis by simp
  next
    case (Inr r)
    with run have ok: "schedule_script e name c envs u spath w = (Inr r, w')" by simp
    note eq = marker_lines_after_schedule [OF ok nb, of n]
    from apart show ?thesis
    proof
      assume "name = n"
      with eq have "marker_lines n w' = [?line]"
        by (simp add: contains_entry_line)
      with Upsert run show ?thesis by simp
    next
      assume na: "\<not> contains (marker n) ?line"
      let ?X = "if crontab_l_ok e then table_lines w else []"
      have "marker_lines n w' =
          filter (contains (marker n)) (filter (\<lambda>l. \<not> contains (marker name) l) ?X)"
        using eq na by (simp del: filter_filter)
      then have "length (marker_lines n w') \<le> length (filter (contains (marker n)) ?X)"
        using length_filter_filter_le [of "contains (marker n)"
            "\<lambda>l. \<not> contains (marker name) l" ?X]
        by (simp del: filter_filter)
      also have "\<dots> \<le> length (marker_lines n w)"
        by (simp add: marker_lines_def)
      finally show ?thesis using assms(2) Upsert run by simp
    qed
  qed
next
  case (Remove name)
  obtain res w' where run: "unschedule_script e name w = (res, w')"
    by (cases "unschedule_script e name w")
  show ?thesis
  proof (cases res)
    case (Inl x)
    with run have "crontab w' = crontab w" using unschedule_script_failure by blast
    then have "marker_lines n w' = marker_lines n w"
      by (simp add: marker_lines_def table_lines_def)
    with assms(2) Remove run show ?thesis by simp
  next
    case (Inr a)
    with run have ok: "unschedule_script e name w = (Inr a, w')" by simp
    let ?kept = "filter (\<lambda>l. \<not> contains (marker name) l) (table_lines w)"
    have "table_lines w' = ?kept \<or> table_lines w' = butlast ?kept"
      using table_lines_after_unschedule [OF ok] by (simp add: Let_def)
    then have "length (marker_lines n w') \<le> length (filter (contains (marker n)) ?kept)"
      using length_filter_butlast_le [of "contains (marker n)" ?kept]
      by (auto simp: marker_lines_def)
    also have "\<dots> \<le> length (marker_lines n w)"
      unfolding marker_lines_def by (rule length_filter_filter_le)
    finally show ?thesis using assms(2) Remove run by simp
  qed
qed

lemma run_ops_keeps_one:
  "list_all (entry_apart e n) ops \<Longrightarrow> length (marker_lines n w) \<le> 1 \<Longrightarrow>
   length (marker_lines n (run_ops e ops w)) \<le> 1"
  unfolding run_ops_def
proof (induction ops arbitrary: w)
  case Nil
  then show ?case by simp
next
  case (Cons a ops)
  from Cons.prems have a: "entry_apart e n a" and rest: "list_all (entry_apart e n) ops"
    by simp_all
  have "length (marker_lines n (apply_op e w a)) \<le> 1"
    using apply_op_keeps_one [OF a Cons.prems(2)] .
  from Cons.IH [OF rest this] show ?case by simp
qed

text \<open>
  C4, as the claim states it, fails: when the table cannot be read (the program
  cannot be started, or its output does not decode), \<open>unschedule_script\<close> answers
  500 for a name whose marker stands in no line of the table, not 404.
\<close>

theorem unreadable_table_answers_500:
  "list_all (\<lambda>line. \<not> contains (marker ''backup'') line) (table_lines shared_table_world) \<and>
   fst (unschedule_script ((example_env pip_fails)\<lparr>crontab_l_ok := False\<rparr>) ''backup''
          shared_table_world)
     = Inl (HTTPException 500 ''Failed to unschedule script: crontab -l'')"
  by code_simp

text \<open>
  C4, amended. \<open>unschedule_script\<close> for a name whose marker stands in no line of the
  table returns the host it was given, whatever it answers: no table is installed
  on this path, so the table is unchanged character for character. On a POSIX host
  where the table can be read, the answer is 404. (Without a table at all the 404
  says that no crontab was found.)
\<close>

theorem unschedule_not_found_unchanged:
  assumes "\<forall>line \<in> set (table_lines w). \<not> contains (marker name) line"
  shows "snd (unschedule_script e name w) = w \<and>
    (os_name e = ''posix'' \<longrightarrow> crontab_l_ok e \<longrightarrow>
       fst (unschedule_script e name w) =
         Inl (HTTPException 404
           (if crontab w = None then ''No crontab found''
            else ''No scheduled script with name '' @ [CHR 0x27] @ name @ [CHR 0x27]
                   @ '' found'')))"
  using assms
  by (auto simp: unschedule_script_def crontab_l_def table_lines_def unschedule_loop_eq
      split: option.splits)

theorem unschedule_not_found_unchanged_witness:
  "snd (unschedule_script (example_env pip_fails) ''backup'' shared_table_world)
     = shared_table_world \<and>
   fst (unschedule_script (example_env pip_fails) ''backup'' shared_table_world)
     = Inl (HTTPException 404
        (''No scheduled script with name '' @ [CHR 0x27] @ ''backup'' @ [CHR 0x27] @ '' found''))"
proof -
  let ?e = "example_env pip_fails"
  have posix: "os_name ?e = ''posix''" by (simp add: example_env_def)
  have rd: "crontab_l_ok ?e" by (simp add: example_env_def)
  have "list_all (\<lambda>line. \<not> contains (marker ''backup'') line) (table_lines shared_table_world)"
    by code_simp
  then have none: "\<forall>line \<in> set (table_lines shared_table_world).
      \<not> contains (marker ''backup'') line"
    by (simp add: list_all_iff)
  have some: "crontab shared_table_world \<noteq> None" by (simp add: shared_table_world_def)
  from unschedule_not_found_unchanged [OF none, of ?e] posix rd some
  show ?thesis by simp
qed

text \<open>
  C3, as the claim states it, fails. \<open>schedule_script\<close> drops the lines that contain
  the marker of the name it is called with, and the marker of one name can stand
  inside the marker of another: after \<open>b\<close> and then \<open>a # b\<close> are scheduled on the
  example host, both calls succeeding, two lines of the table contain the marker of
  \<open>b\<close>.
\<close>

theorem two_lines_carry_one_marker:
  "(case fst (schedule_script (example_env pip_fails) ''b'' ''0 3 * * *'' [] alice ''job.py''
               example_world) of Inr _ \<Rightarrow> True | Inl _ \<Rightarrow> False) \<and>
   (case fst (schedule_script (example_env pip_fails) ''a # b'' ''0 4 * * *'' [] alice ''job.py''
               (snd (schedule_script (example_env pip_fails) ''b'' ''0 3 * * *'' [] alice
                       ''job.py'' example_world))) of Inr _ \<Rightarrow> True | Inl _ \<Rightarrow> False) \<and>
   filter (contains (marker ''b''))
     (table_lines
        (snd (schedule_script (example_env pip_fails) ''a # b'' ''0 4 * * *'' [] alice ''job.py''
           (snd (schedule_script (example_env pip_fails) ''b'' ''0 3 * * *'' [] alice
                   ''job.py'' example_world)))))
   = [''0 3 * * * /home/alice/job_wrapper.sh # b - managed by control-panel'',
      ''0 4 * * * /home/alice/job_wrapper.sh # a # b - managed by control-panel'']"
  by code_simp

text \<open>
  C3, amended. Take a name \<open>n\<close> and a table in which at most one line contains the
  marker of \<open>n\<close>. After any sequence of upserts and removes, successful or not, at
  most one line contains the marker of \<open>n\<close>, provided the entry of every upsert in
  the sequence has no line break in it and, unless the upsert is for \<open>n\<close> itself,
  does not contain the marker of \<open>n\<close>. Right after a successful upsert for \<open>n\<close>
  whose entry has no line break, exactly one line contains the marker of \<open>n\<close>: the
  entry just appended, with the cron expression of this call; so two upserts under
  one name leave one line for it, bearing the second expression. Right after a
  successful remove for \<open>n\<close>, no line contains its marker.
\<close>

theorem marker_invariant_kept:
  "(list_all (entry_apart e n) ops \<longrightarrow> length (marker_lines n w) \<le> 1 \<longrightarrow>
      length (marker_lines n (run_ops e ops w)) \<le> 1) \<and>
   (schedule_script e n c envs u spath w = (Inr r, w') \<longrightarrow>
      no_linebreak (entry_line c (wrapper_path_of e u spath) n) \<longrightarrow>
      marker_lines n w' = [entry_line c (wrapper_path_of e u spath) n]) \<and>
   (unschedule_script e n w = (Inr a, w'') \<longrightarrow> marker_lines n w'' = [])"
proof (intro conjI impI)
  assume "list_all (entry_apart e n) ops" and "length (marker_lines n w) \<le> 1"
  then show "length (marker_lines n (run_ops e ops w)) \<le> 1"
    by (rule run_ops_keeps_one)
next
  assume ok: "schedule_script e n c envs u spath w = (Inr r, w')"
    and nb: "no_linebreak (entry_line c (wrapper_path_of e u spath) n)"
  show "marker_lines n w' = [entry_line c (wrapper_path_of e u spath) n]"
    using marker_lines_after_schedule [OF ok nb, of n]
    by (simp add: contains_entry_line)
next
  assume ok: "unschedule_script e n w = (Inr a, w'')"
  let ?kept = "filter (\<lambda>l. \<not> contains (marker n) l) (table_lines w)"
  have sub: "set (table_lines w'') \<subseteq> set ?kept"
    using table_lines_after_unschedule [OF ok]
    by (auto simp: Let_def dest: in_set_butlastD split: if_splits)
  show "marker_lines n w'' = []"
    using sub by (auto simp: marker_lines_def filter_empty_conv)
qed

theorem marker_invariant_kept_witness:
  "length (marker_lines ''backup''
     (run_ops (example_env pip_fails)
        [Upsert ''backup'' ''0 3 * * *'' [] alice ''job.py'',
         Remove ''report'',
         Upsert ''nightly'' ''15 1 * * *'' [] alice ''job.py'',
         Upsert ''backup'' ''30 4 * * 1'' [] alice ''job.py'']
        shared_table_world)) \<le> 1 \<and>
   marker_lines ''backup''
     (snd (schedule_script (example_env pip_fails) ''backup'' ''30 4 * * 1'' [] alice ''job.py''
        (snd (schedule_script (example_env pip_fails) ''backup'' ''0 3 * * *'' [] alice
                ''job.py'' shared_table_world))))
     = [''30 4 * * 1 /home/alice/job_wrapper.sh # backup - managed by control-panel''] \<and>
   marker_lines ''backup''
     (snd (unschedule_script (example_env pip_fails) ''backup''
        (snd (schedule_script (example_env pip_fails) ''backup'' ''0 3 * * *'' [] alice
                ''job.py'' shared_table_world))))
     = []"
proof -
  let ?e = "example_env pip_fails"
  let ?ops = "[Upsert ''backup'' ''0 3 * * *'' [] alice ''job.py'',
         Remove ''report'',
         Upsert ''nightly'' ''15 1 * * *'' [] alice ''job.py'',
         Upsert ''backup'' ''30 4 * * 1'' [] alice ''job.py'']"
  let ?w1 = "snd (schedule_script ?e ''backup'' ''0 3 * * *'' [] alice ''job.py''
                    shared_table_world)"
  let ?r = "\<lparr>s_message = ''Script scheduled successfully'', s_name = ''backup'',
             s_script_path = ''job.py'', s_cron_expression = ''30 4 * * 1'',
             s_wrapper_path = ''job_wrapper.sh''\<rparr>"
  have apart: "list_all (entry_apart ?e ''backup'') ?ops" by code_simp
  have start: "length (marker_lines ''backup'' shared_table_world) \<le> 1" by code_simp
  have "fst (schedule_script ?e ''backup'' ''30 4 * * 1'' [] alice ''job.py'' ?w1) = Inr ?r"
    by code_simp
  then have up: "schedule_script ?e ''backup'' ''30 4 * * 1'' [] alice ''job.py'' ?w1 =
      (Inr ?r, snd (schedule_script ?e ''backup'' ''30 4 * * 1'' [] alice ''job.py'' ?w1))"
    by (simp add: prod_eq_iff)
  have line: "entry_line ''30 4 * * 1'' (wrapper_path_of ?e alice ''job.py'') ''backup''
      = ''30 4 * * 1 /home/alice/job_wrapper.sh # backup - managed by control-panel''"
    by code_simp
  have nb: "no_linebreak (entry_line ''30 4 * * 1'' (wrapper_path_of ?e alice ''job.py'')
      ''backup'')"
    by code_simp
  have "fst (unschedule_script ?e ''backup'' ?w1)
      = Inr (''Script unscheduled successfully'', ''backup'')"
    by code_simp
  then have rm: "unschedule_script ?e ''backup'' ?w1 =
      (Inr (''Script unscheduled successfully'', ''backup''),
       snd (unschedule_script ?e ''backup'' ?w1))"
    by (simp add: prod_eq_iff)
  from marker_invariant_kept [THEN conjunct1, rule_format, OF apart start]
       marker_invariant_kept [THEN conjunct2, THEN conjunct1, rule_format, OF up nb]
       marker_invariant_kept [THEN conjunct2, THEN conjunct2, rule_format, OF rm]
  show ?thesis by (simp only: line simp_thms)
qed

text \<open>
  What the two operations keep when the table was read: the lines of the old table
  that do not contain the marker of the name, each as it was and in the old order,
  joined by line feeds (after them, for \<open>schedule_script\<close>, the new entry). Read
  back with \<open>splitlines\<close>, the new table has exactly these lines; only an empty
  line that ends up last after \<open>unschedule_script\<close> is not reported by
  \<open>splitlines\<close>, since no line feed follows it.
\<close>

lemma table_edit_keeps_other_lines:
  fixes w :: world and name :: string
  defines "kept \<equiv> filter (\<lambda>l. \<not> contains (marker name) l) (table_lines w)"
  shows
  "(schedule_script e name c envs u spath w = (Inr r, w') \<longrightarrow> crontab_l_ok e \<longrightarrow>
      crontab w' = Some (py_join nl (kept @ [cron_entry c (wrapper_path_of e u spath) name])) \<and>
      table_lines w' = kept @ splitlines (cron_entry c (wrapper_path_of e u spath) name)) \<and>
   (unschedule_script e name w = (Inr a, w'') \<longrightarrow>
      crontab w'' = Some (py_join nl kept) \<and>
      kept = table_lines w'' @ (if kept \<noteq> [] \<and> last kept = [] then [[]] else []))"
proof (intro conjI impI)
  assume ok: "schedule_script e name c envs u spath w = (Inr r, w')"
    and rd: "crontab_l_ok e"
  have cur: "splitlines (case crontab w of None \<Rightarrow> [] | Some t \<Rightarrow> t) = table_lines w"
    by (simp add: table_lines_def splitlines_def split: option.splits)
  show "crontab w' = Some (py_join nl (kept @ [cron_entry c (wrapper_path_of e u spath) name]))"
    using schedule_script_success [OF ok] rd
    by (simp add: upsert_crontab_def Let_def cur kept_def)
  show "table_lines w' = kept @ splitlines (cron_entry c (wrapper_path_of e u spath) name)"
    using table_lines_after_schedule [OF ok] rd by (simp add: kept_def)
next
  assume ok: "unschedule_script e name w = (Inr a, w'')"
  show "crontab w'' = Some (py_join nl kept)"
    using unschedule_script_success [OF ok] by (simp add: kept_def)
  have "table_lines w'' = (if kept \<noteq> [] \<and> last kept = [] then butlast kept else kept)"
    using table_lines_after_unschedule [OF ok] by (simp add: kept_def Let_def)
  moreover have "kept \<noteq> [] \<and> last kept = [] \<Longrightarrow> butlast kept @ [[]] = kept"
    by (metis append_butlast_last_id)
  ultimately show "kept = table_lines w'' @ (if kept \<noteq> [] \<and> last kept = [] then [[]] else [])"
    by auto
qed

lemma table_edit_keeps_other_lines_example:
  "crontab (snd (schedule_script (example_env pip_fails) ''backup'' ''0 3 * * *'' [] alice
                   ''job.py'' shared_table_world))
     = Some (''# nightly clean-up'' @ nl @
             ''15 2 * * * /opt/clean.sh'' @ nl @
             ''0 1 * * * /home/bob/report_wrapper.sh # report - managed by control-panel'' @ nl @
             ''0 3 * * * /home/alice/job_wrapper.sh # backup - managed by control-panel'' @ nl) \<and>
   crontab (snd (unschedule_script (example_env pip_fails) ''report'' shared_table_world))
     = Some (''# nightly clean-up'' @ nl @ ''15 2 * * * /opt/clean.sh'')"
proof -
  let ?e = "example_env pip_fails"
  let ?r = "\<lparr>s_message = ''Script scheduled successfully'', s_name = ''backup'',
             s_script_path = ''job.py'', s_cron_expression = ''0 3 * * *'',
             s_wrapper_path = ''job_wrapper.sh''\<rparr>"
  have "fst (schedule_script ?e ''backup'' ''0 3 * * *'' [] alice ''job.py'' shared_table_world)
      = Inr ?r"
    by code_simp
  then have up: "schedule_script ?e ''backup'' ''0 3 * * *'' [] alice ''job.py''
        shared_table_world =
      (Inr ?r, snd (schedule_script ?e ''backup'' ''0 3 * * *'' [] alice ''job.py''
                      shared_table_world))"
    by (simp add: prod_eq_iff)
  have "fst (unschedule_script ?e ''report'' shared_table_world)
      = Inr (''Script unscheduled successfully'', ''report'')"
    by code_simp
  then have rm: "unschedule_script ?e ''report'' shared_table_world =
      (Inr (''Script unscheduled successfully'', ''report''),
       snd (unschedule_script ?e ''report'' shared_table_world))"
    by (simp add: prod_eq_iff)
  have new1: "py_join nl
      (filter (\<lambda>l. \<not> contains (marker ''backup'') l) (table_lines shared_table_world)
         @ [cron_entry ''0 3 * * *'' (wrapper_path_of ?e alice ''job.py'') ''backup''])
     = ''# nightly clean-up'' @ nl @
       ''15 2 * * * /opt/clean.sh'' @ nl @
       ''0 1 * * * /home/bob/report_wrapper.sh # report - managed by control-panel'' @ nl @
       ''0 3 * * * /home/alice/job_wrapper.sh # backup - managed by control-panel'' @ nl"
    by code_simp
  have new2: "py_join nl
      (filter (\<lambda>l. \<not> contains (marker ''report'') l) (table_lines shared_table_world))
     = ''# nightly clean-up'' @ nl @ ''15 2 * * * /opt/clean.sh''"
    by code_simp
  have rd: "crontab_l_ok ?e" by (simp add: example_env_def)
  from table_edit_keeps_other_lines [THEN conjunct1, rule_format, OF up rd, THEN conjunct1]
       table_edit_keeps_other_lines [THEN conjunct2, rule_format, OF rm, THEN conjunct1]
  show ?thesis
    unfolding new1 new2 by (rule conjI)
qed

text \<open>
  C5. \<open>schedule_script\<close> does not keep the other lines of the table when reading
  the table raises (the program cannot be started, or its output does not decode):
  the handler of lines 413 and 414 takes the table to be empty, as line 410 intends
  for a host without a table, and the call installs a table that holds the new
  entry alone and reports success. On the example host the hand-written line,
  which does not contain the marker of the scheduled name, is lost.
  \<open>unschedule_script\<close> and \<open>list_scheduled_scripts\<close> answer 500 when the same read
  raises.
\<close>

theorem unreadable_table_is_replaced:
  "(case fst (schedule_script ((example_env pip_fails)\<lparr>crontab_l_ok := False\<rparr>) ''backup''
               ''0 3 * * *'' [] alice ''job.py'' shared_table_world)
    of Inr _ \<Rightarrow> True | Inl _ \<Rightarrow> False) \<and>
   List.member (table_lines shared_table_world) ''15 2 * * * /opt/clean.sh'' \<and>
   \<not> contains (marker ''backup'') ''15 2 * * * /opt/clean.sh'' \<and>
   crontab (snd (schedule_script ((example_env pip_fails)\<lparr>crontab_l_ok := False\<rparr>) ''backup''
                   ''0 3 * * *'' [] alice ''job.py'' shared_table_world))
     = Some (''0 3 * * * /home/alice/job_wrapper.sh # backup - managed by control-panel'' @ nl)"
  by code_simp

end
